theory Spec2Isabelle
  imports Main "HOL-Library.Char_ord" "HOL-Library.List_Lexorder"
begin

section \<open>JavaScript strings\<close>

text \<open>
  A JavaScript string is modelled as a \<^typ>\<open>string\<close>: the list of its code units.
  The characters the source tests for (slash, backslash, \<open>@\<close>, dot) are all ASCII.
\<close>

definition startsWith :: "string \<Rightarrow> string \<Rightarrow> bool" where
  "startsWith s p = (take (length p) s = p)"

text \<open>\<^verbatim>\<open>s.split(c)\<close> for a one-character separator: never the empty array.\<close>

fun split_js :: "char \<Rightarrow> string \<Rightarrow> string list" where
  "split_js c [] = [[]]"
| "split_js c (x # xs) =
     (if x = c then [] # split_js c xs
      else (case split_js c xs of
              [] \<Rightarrow> [[x]]
            | y # ys \<Rightarrow> (x # y) # ys))"

text \<open>\<^verbatim>\<open>parts.join(sep)\<close>.\<close>

fun join_js :: "string \<Rightarrow> string list \<Rightarrow> string" where
  "join_js sep [] = []"
| "join_js sep [x] = x"
| "join_js sep (x # y # ys) = x @ sep @ join_js sep (y # ys)"

text \<open>\<^verbatim>\<open>s || null\<close> on a string: the empty string is falsy.\<close>

definition or_null :: "string \<Rightarrow> string option" where
  "or_null s = (if s = [] then None else Some s)"

text \<open>
  An array element read by destructuring is \<open>undefined\<close> when the array is too short;
  a template literal prints \<open>undefined\<close> as the text \<open>undefined\<close>.
\<close>

definition element :: "string list \<Rightarrow> nat \<Rightarrow> string option" where
  "element xs i = (if i < length xs then Some (xs ! i) else None)"

definition template :: "string option \<Rightarrow> string" where
  "template v = (case v of None \<Rightarrow> ''undefined'' | Some s \<Rightarrow> s)"

section \<open>esinstall/src/util.ts: parsePackageImportSpecifier\<close>

text \<open>
  The array \<open>impParts\<close> has a first element, since \<open>split\<close> never returns the empty
  array; the second one may be missing.
\<close>

definition parsePackageImportSpecifier :: "string \<Rightarrow> string \<times> string option" where
  "parsePackageImportSpecifier imp =
     (let impParts = split_js CHR ''/'' imp in
      if startsWith imp ''@'' then
        (let scope = hd impParts; name = element impParts 1; rest = drop 2 impParts
         in (scope @ ''/'' @ template name, or_null (join_js ''/'' rest)))
      else
        (let name = hd impParts; rest = drop 1 impParts
         in (name, or_null (join_js ''/'' rest))))"

section \<open>The path module\<close>

text \<open>
  The functions of Node's \<open>path\<close> module that the source calls. The host decides between
  the POSIX and the Windows flavour, so the source functions take the implementation as
  an argument; \<open>path_resolve\<close> receives the list of its arguments.
\<close>

record path_impl =
  path_sep :: string
  path_isAbsolute :: "string \<Rightarrow> bool"
  path_extname :: "string \<Rightarrow> string"
  path_dirname :: "string \<Rightarrow> string"
  path_normalize :: "string \<Rightarrow> string"
  path_resolve :: "string list \<Rightarrow> string"
  path_relative :: "string \<Rightarrow> string \<Rightarrow> string"

subsection \<open>The POSIX flavour\<close>

text \<open>
  \<open>path.posix\<close> as Node documents it, on the segments of a path. \<open>normalizeString\<close> drops
  empty and \<open>.\<close> segments and lets \<open>..\<close> cancel the segment before it; above the root of
  a relative path the \<open>..\<close> stays. The first argument is the stack of segments kept so
  far, the last one first.
\<close>

fun normalizeSegments :: "string list \<Rightarrow> bool \<Rightarrow> string list \<Rightarrow> string list" where
  "normalizeSegments acc allowAboveRoot [] = rev acc"
| "normalizeSegments acc allowAboveRoot (s # ss) =
     (if s = [] \<or> s = ''.'' then normalizeSegments acc allowAboveRoot ss
      else if s = ''..'' then
        (case acc of
           [] \<Rightarrow> normalizeSegments (if allowAboveRoot then [''..''] else []) allowAboveRoot ss
         | t # ts \<Rightarrow>
             if t = ''..'' then normalizeSegments (''..'' # acc) allowAboveRoot ss
             else normalizeSegments ts allowAboveRoot ss)
      else normalizeSegments (s # acc) allowAboveRoot ss)"

definition normalizeString :: "string \<Rightarrow> bool \<Rightarrow> string" where
  "normalizeString p allowAboveRoot =
     join_js ''/'' (normalizeSegments [] allowAboveRoot (split_js CHR ''/'' p))"

definition posix_isAbsolute :: "string \<Rightarrow> bool" where
  "posix_isAbsolute p = (p \<noteq> [] \<and> hd p = CHR ''/'')"

definition posix_normalize :: "string \<Rightarrow> string" where
  "posix_normalize p =
     (if p = [] then ''.''
      else
        (let isAbsolute = (hd p = CHR ''/'');
             trailingSeparator = (last p = CHR ''/'');
             body = normalizeString p (\<not> isAbsolute)
         in if body = [] then (if isAbsolute then ''/'' else if trailingSeparator then ''./'' else ''.'')
            else (if isAbsolute then ''/'' else []) @ body @ (if trailingSeparator then ''/'' else [])))"

text \<open>
  \<open>path.resolve\<close> reads its arguments from the right until one is absolute; the working
  directory of the process stands behind the first argument.
\<close>

fun resolve_from_right :: "string list \<Rightarrow> string \<Rightarrow> string \<times> bool" where
  "resolve_from_right [] resolvedPath = (resolvedPath, False)"
| "resolve_from_right (p # ps) resolvedPath =
     (if p = [] then resolve_from_right ps resolvedPath
      else if hd p = CHR ''/'' then (p @ ''/'' @ resolvedPath, True)
      else resolve_from_right ps (p @ ''/'' @ resolvedPath))"

definition posix_resolve :: "string \<Rightarrow> string list \<Rightarrow> string" where
  "posix_resolve cwd args =
     (case resolve_from_right (rev args @ [cwd]) [] of
        (resolvedPath, resolvedAbsolute) \<Rightarrow>
          (let body = normalizeString resolvedPath (\<not> resolvedAbsolute)
           in if resolvedAbsolute then ''/'' @ body
              else if body \<noteq> [] then body else ''.''))"

text \<open>
  \<open>path.relative\<close>: both paths are resolved, their common leading segments dropped, and
  one \<open>..\<close> stands for each segment left of \<open>from\<close>.
\<close>

fun drop_common :: "string list \<Rightarrow> string list \<Rightarrow> string list \<times> string list" where
  "drop_common (x # xs) (y # ys) = (if x = y then drop_common xs ys else (x # xs, y # ys))"
| "drop_common xs ys = (xs, ys)"

definition path_segments :: "string \<Rightarrow> string list" where
  "path_segments p = filter (\<lambda>s. s \<noteq> []) (split_js CHR ''/'' p)"

definition posix_relative :: "string \<Rightarrow> string \<Rightarrow> string \<Rightarrow> string" where
  "posix_relative cwd from to =
     (if from = to then []
      else
        (let f = posix_resolve cwd [from]; t = posix_resolve cwd [to]
         in if f = t then []
            else (case drop_common (path_segments f) (path_segments t) of
                    (fs, ts) \<Rightarrow> join_js ''/'' (map (\<lambda>s. ''..'') fs @ ts))))"

text \<open>
  \<open>path.dirname\<close>: trailing slashes and the last component go; the slash at index 0 is
  never looked at.
\<close>

definition posix_dirname :: "string \<Rightarrow> string" where
  "posix_dirname p =
     (if p = [] then ''.''
      else
        (let hasRoot = (hd p = CHR ''/'');
             r = dropWhile (\<lambda>c. c \<noteq> CHR ''/'') (dropWhile (\<lambda>c. c = CHR ''/'') (rev (tl p)))
         in if r = [] then (if hasRoot then ''/'' else ''.'')
            else if hasRoot \<and> tl r = [] then ''//''
            else hd p # rev (tl r)))"

text \<open>
  \<open>path.extname\<close>: from the last \<open>.\<close> of the last component, empty when that component
  has no dot, begins with its only dot, or is \<open>..\<close>.
\<close>

definition posix_basename_part :: "string \<Rightarrow> string" where
  "posix_basename_part p =
     rev (takeWhile (\<lambda>c. c \<noteq> CHR ''/'') (dropWhile (\<lambda>c. c = CHR ''/'') (rev p)))"

definition posix_extname :: "string \<Rightarrow> string" where
  "posix_extname p =
     (let b = posix_basename_part p;
          ext = rev (takeWhile (\<lambda>c. c \<noteq> CHR ''.'') (rev b))
      in if CHR ''.'' \<notin> set b \<or> length ext + 1 = length b \<or> b = ''..'' then []
         else CHR ''.'' # ext)"

definition posix :: "string \<Rightarrow> path_impl" where
  "posix cwd =
     \<lparr>path_sep = ''/'',
      path_isAbsolute = posix_isAbsolute,
      path_extname = posix_extname,
      path_dirname = posix_dirname,
      path_normalize = posix_normalize,
      path_resolve = posix_resolve cwd,
      path_relative = posix_relative cwd\<rparr>"

section \<open>esinstall/src/util.ts: slash helpers\<close>

definition is_slash :: "char \<Rightarrow> bool" where
  "is_slash c = (c = CHR ''/'' \<or> c = CHR 0x5C)"


text \<open>\<^verbatim>\<open>path.replace(/^[/\\]+/, '')\<close>: the whole leading run of slashes and backslashes goes.\<close>

definition removeLeadingSlash :: "string \<Rightarrow> string" where
  "removeLeadingSlash p = dropWhile is_slash p"


section \<open>esinstall/src/util.ts: findMatchingAliasEntry\<close>











section \<open>Exceptions and completions\<close>

text \<open>
  What Node throws is an \<open>Error\<close> object; the source reads only its \<open>code\<close> property,
  which is absent on most errors. A statement completes normally, by \<open>return\<close>, or by
  throwing.
\<close>

datatype js_error = JsError (code: "string option")

datatype 'a completion = Normal | Return 'a | Throw js_error

text \<open>\<^verbatim>\<open>try { block } catch (err) { handler }\<close>\<close>

definition try_catch :: "'a completion \<Rightarrow> (js_error \<Rightarrow> 'a completion) \<Rightarrow> 'a completion" where
  "try_catch block handler = (case block of Throw err \<Rightarrow> handler err | c \<Rightarrow> c)"

text \<open>\<^verbatim>\<open>... finally { return v; }\<close>: the \<open>return\<close> of the finally block replaces any completion.\<close>

definition finally_return :: "'a completion \<Rightarrow> 'a \<Rightarrow> 'a completion" where
  "finally_return c v = Return v"

text \<open>Statements in sequence: the second runs when the first completes normally.\<close>

definition then_run :: "'a completion \<Rightarrow> 'a completion \<Rightarrow> 'a completion" where
  "then_run c d = (case c of Normal \<Rightarrow> d | other \<Rightarrow> other)"

section \<open>esinstall/src/util.ts: resolvePath and resolveDependencyManifest\<close>

text \<open>
  The Node functions the resolver calls, each returning its value or the error it
  throws. \<open>'m\<close> is the type of a parsed manifest.
\<close>

record 'm node_env =
  require_resolve :: "string \<Rightarrow> string list option \<Rightarrow> js_error + string"
  realpathSync_native :: "string \<Rightarrow> js_error + string"
  require_file :: "string \<Rightarrow> js_error + 'm"
  readFileSync :: "string \<Rightarrow> js_error + string"
  JSON_parse :: "string \<Rightarrow> js_error + 'm"
  dirname_of_module :: string

definition resolvePath :: "'m node_env \<Rightarrow> string \<Rightarrow> string option \<Rightarrow> js_error + string" where
  "resolvePath env dep cwd =
     (let options = (case cwd of
                       None \<Rightarrow> None
                     | Some d \<Rightarrow> if d = [] then None else Some [d, dirname_of_module env])
      in case require_resolve env dep options of
           Inl err \<Rightarrow> Inl err
         | Inr p \<Rightarrow> realpathSync_native env p)"

text \<open>\<^verbatim>\<open>s.lastIndexOf(t)\<close>: the greatest index where \<open>t\<close> occurs in \<open>s\<close>, or \<open>-1\<close>.\<close>

definition lastIndexOf :: "string \<Rightarrow> string \<Rightarrow> int" where
  "lastIndexOf s t =
     (case find (\<lambda>i. take (length t) (drop i s) = t) (rev [0 ..< Suc (length s)]) of
        None \<Rightarrow> - 1
      | Some i \<Rightarrow> int i)"

text \<open>\<^verbatim>\<open>s.substring(0, e)\<close> for \<open>e \<ge> 0\<close>: \<open>e\<close> beyond the end is the end.\<close>

definition substring0 :: "string \<Rightarrow> int \<Rightarrow> string" where
  "substring0 s e = take (nat e) s"

text \<open>\<^verbatim>\<open>s.replace('/', r)\<close> with a string pattern: the first occurrence only.\<close>

fun replace_first_slash :: "string \<Rightarrow> string \<Rightarrow> string" where
  "replace_first_slash r [] = []"
| "replace_first_slash r (c # cs) =
     (if c = CHR ''/'' then r @ cs else c # replace_first_slash r cs)"

type_synonym 'm manifest_result = "string option \<times> 'm option"

text \<open>
  The first \<open>try\<close> statement. Its block returns the manifest or throws; its handler
  returns \<open>[null, null]\<close>, or completes normally when the error is the export-map one.
\<close>

definition attempt1_block :: "'m node_env \<Rightarrow> string \<Rightarrow> string \<Rightarrow> 'm manifest_result completion" where
  "attempt1_block env dep cwd =
     (case resolvePath env (dep @ ''/package.json'') (Some cwd) of
        Inl err \<Rightarrow> Throw err
      | Inr depManifest \<Rightarrow>
          (case require_file env depManifest of
             Inl err \<Rightarrow> Throw err
           | Inr m \<Rightarrow> Return (Some depManifest, Some m)))"

definition attempt1 :: "'m node_env \<Rightarrow> string \<Rightarrow> string \<Rightarrow> 'm manifest_result completion" where
  "attempt1 env dep cwd =
     try_catch (attempt1_block env dep cwd)
       (\<lambda>err. if code err \<noteq> Some ''ERR_PACKAGE_PATH_NOT_EXPORTED''
              then Return (None, None) else Normal)"

text \<open>
  The block of the second \<open>try\<close>: it assigns to the two cells of \<open>result\<close> as it goes, so
  it yields the cells as they stand when it stops, next to its completion.
\<close>

definition attempt2_block ::
  "path_impl \<Rightarrow> 'm node_env \<Rightarrow> string \<Rightarrow> string \<Rightarrow> 'm manifest_result
     \<Rightarrow> 'm manifest_result completion \<times> 'm manifest_result" where
  "attempt2_block P env dep cwd result =
     (case resolvePath env dep (Some cwd) of
        Inl err \<Rightarrow> (Throw err, result)
      | Inr fullPath \<Rightarrow>
          (let searchPath = path_sep P @ ''node_modules'' @ path_sep P
                              @ replace_first_slash (path_sep P) dep;
               indexOfSearch = lastIndexOf fullPath searchPath
           in if indexOfSearch \<ge> 0 then
                (let manifestPath =
                       substring0 fullPath (indexOfSearch + int (length searchPath) + 1)
                         @ ''package.json'';
                     result1 = (Some manifestPath, snd result)
                 in case readFileSync env manifestPath of
                      Inl err \<Rightarrow> (Throw err, result1)
                    | Inr manifestStr \<Rightarrow>
                        (case JSON_parse env manifestStr of
                           Inl err \<Rightarrow> (Throw err, result1)
                         | Inr m \<Rightarrow> (Normal, (fst result1, Some m))))
              else (Normal, result)))"

definition attempt2 :: "path_impl \<Rightarrow> 'm node_env \<Rightarrow> string \<Rightarrow> string \<Rightarrow> 'm manifest_result completion" where
  "attempt2 P env dep cwd =
     (case attempt2_block P env dep cwd (None, None) of
        (c, result) \<Rightarrow> finally_return (try_catch c (\<lambda>err. Normal)) result)"

definition resolveDependencyManifest ::
  "path_impl \<Rightarrow> 'm node_env \<Rightarrow> string \<Rightarrow> string \<Rightarrow> 'm manifest_result completion" where
  "resolveDependencyManifest P env dep cwd =
     then_run (attempt1 env dep cwd) (attempt2 P env dep cwd)"

text \<open>The search string and the manifest path that attempt 2 derives from an entrypoint.\<close>

definition searchPath_of :: "path_impl \<Rightarrow> string \<Rightarrow> string" where
  "searchPath_of P dep =
     path_sep P @ ''node_modules'' @ path_sep P @ replace_first_slash (path_sep P) dep"

definition inferred_manifestPath :: "path_impl \<Rightarrow> string \<Rightarrow> string \<Rightarrow> string" where
  "inferred_manifestPath P dep fullPath =
     substring0 fullPath
       (lastIndexOf fullPath (searchPath_of P dep) + int (length (searchPath_of P dep)) + 1)
       @ ''package.json''"

section \<open>esinstall/src/util.ts: writeLockfile\<close>

text \<open>
  The \<open>imports\<close> object: its own properties, all string-valued, in the order they were
  created, each key once. An ordinary object enumerates the keys that are array indices
  first, in ascending numeric order, then the other keys in creation order; this is the
  order of \<^verbatim>\<open>Object.keys\<close> and of \<^verbatim>\<open>JSON.stringify\<close>.
\<close>

type_synonym js_object = "(string \<times> string) list"

definition is_digit :: "char \<Rightarrow> bool" where
  "is_digit c = (CHR ''0'' \<le> c \<and> c \<le> CHR ''9'')"

definition index_value :: "string \<Rightarrow> int" where
  "index_value s = foldl (\<lambda>n c. 10 * n + (of_char c - 48)) 0 s"

text \<open>An array index: the canonical decimal numeral of an integer from 0 to \<open>2^32 - 2\<close>.\<close>

definition is_array_index :: "string \<Rightarrow> bool" where
  "is_array_index s =
     (s \<noteq> [] \<and> list_all is_digit s \<and> (s = ''0'' \<or> hd s \<noteq> CHR ''0'')
      \<and> length s \<le> 10 \<and> index_value s \<le> 4294967294)"

definition own_keys :: "js_object \<Rightarrow> string list" where
  "own_keys obj =
     sort_key index_value (filter is_array_index (map fst obj))
       @ filter (\<lambda>k. \<not> is_array_index k) (map fst obj)"

text \<open>
  \<^verbatim>\<open>obj[key] = value\<close> with a string value on an object made by \<^verbatim>\<open>{}\<close>: an existing
  property keeps its place, a new one is created last; the key \<open>__proto__\<close> reaches the
  setter of \<open>Object.prototype\<close>, which ignores a string.
\<close>

definition obj_set :: "js_object \<Rightarrow> string \<Rightarrow> string \<Rightarrow> js_object" where
  "obj_set obj key v =
     (if key = ''__proto__'' then obj
      else if key \<in> set (map fst obj) then map (\<lambda>(k, w). if k = key then (k, v) else (k, w)) obj
      else obj @ [(key, v)])"

text \<open>
  The loop of \<open>writeLockfile\<close> over the sorted keys. A key without a value cannot come
  out of \<^verbatim>\<open>Object.keys\<close>; it would be stored as \<open>undefined\<close>, which \<^verbatim>\<open>JSON.stringify\<close> omits.
\<close>

fun copy_sorted :: "js_object \<Rightarrow> string list \<Rightarrow> js_object \<Rightarrow> js_object" where
  "copy_sorted imports [] sortedImports = sortedImports"
| "copy_sorted imports (key # keys) sortedImports =
     copy_sorted imports keys
       (case map_of imports key of
          None \<Rightarrow> sortedImports
        | Some v \<Rightarrow> obj_set sortedImports key v)"

definition sortedImportMap :: "js_object \<Rightarrow> js_object" where
  "sortedImportMap imports = copy_sorted imports (sort (own_keys imports)) []"

subsection \<open>JSON.stringify with indent 2\<close>

definition hex_digit :: "nat \<Rightarrow> char" where
  "hex_digit n = (if n < 10 then char_of (48 + n) else char_of (87 + n))"

text \<open>\<open>QuoteJSONString\<close> on a code unit below 256.\<close>

definition quote_char :: "char \<Rightarrow> string" where
  "quote_char c =
     (if c = CHR 0x08 then [CHR 0x5C, CHR ''b'']
      else if c = CHR 0x09 then [CHR 0x5C, CHR ''t'']
      else if c = CHR 0x0A then [CHR 0x5C, CHR ''n'']
      else if c = CHR 0x0C then [CHR 0x5C, CHR ''f'']
      else if c = CHR 0x0D then [CHR 0x5C, CHR ''r'']
      else if c = CHR 0x22 then [CHR 0x5C, CHR 0x22]
      else if c = CHR 0x5C then [CHR 0x5C, CHR 0x5C]
      else if (of_char c :: nat) < 32
        then [CHR 0x5C, CHR ''u'', CHR ''0'', CHR ''0'',
              hex_digit (of_char c div 16), hex_digit (of_char c mod 16)]
      else [c])"

definition quote_json :: "string \<Rightarrow> string" where
  "quote_json s = [CHR 0x22] @ concat (map quote_char s) @ [CHR 0x22]"

definition stringify_imports :: "js_object \<Rightarrow> string" where
  "stringify_imports obj =
     (if own_keys obj = [] then ''{}''
      else ''{'' @ [CHR 0x0A]
           @ join_js ('','' @ [CHR 0x0A])
               (map (\<lambda>k. ''    '' @ quote_json k @ '': '' @ quote_json (the (map_of obj k)))
                    (own_keys obj))
           @ [CHR 0x0A] @ ''  }'')"

text \<open>\<^verbatim>\<open>JSON.stringify({imports: obj}, undefined, 2)\<close>\<close>

definition stringify_importMap :: "js_object \<Rightarrow> string" where
  "stringify_importMap obj =
     ''{'' @ [CHR 0x0A] @ ''  '' @ quote_json ''imports'' @ '': '' @ stringify_imports obj
       @ [CHR 0x0A] @ ''}''"

text \<open>The UTF-8 bytes of a string of code units below 256.\<close>

definition utf8_char :: "char \<Rightarrow> string" where
  "utf8_char c =
     (if (of_char c :: nat) < 128 then [c]
      else [char_of (192 + (of_char c :: nat) div 64), char_of (128 + (of_char c :: nat) mod 64)])"

definition utf8 :: "string \<Rightarrow> string" where
  "utf8 s = concat (map utf8_char s)"

text \<open>The file system: the bytes stored at each path. A write that the system refuses is not modelled.\<close>

type_synonym file_system = "string \<rightharpoonup> string"

definition writeLockfile :: "string \<Rightarrow> js_object \<Rightarrow> file_system \<Rightarrow> file_system" where
  "writeLockfile loc imports fs = fs(loc \<mapsto> utf8 (stringify_importMap (sortedImportMap imports)))"

section \<open>packages/snowpack/src/commands/build.ts: the import rewriter\<close>

text \<open>
  What the rewriter calls outside its own file: \<^verbatim>\<open>url.parse(u).protocol\<close>, which is
  \<open>null\<close> or a string and may throw, and \<open>removeLeadingSlash\<close>, which \<open>build.ts\<close> imports
  from the package's \<open>config\<close> module.
\<close>

record build_deps =
  url_parse_protocol :: "string \<Rightarrow> js_error + string option"
  config_removeLeadingSlash :: "string \<Rightarrow> string"

text \<open>\<^verbatim>\<open>s.replace(/\\/g, '/')\<close>\<close>

definition backslashes_to_slashes :: "string \<Rightarrow> string" where
  "backslashes_to_slashes s = map (\<lambda>c. if c = CHR 0x5C then CHR ''/'' else c) s"

text \<open>\<^verbatim>\<open>allImportProxyFiles.add(x)\<close>: a \<open>Set\<close> keeps its members in the order they came.\<close>

definition set_add :: "string list \<Rightarrow> string \<Rightarrow> string list" where
  "set_add xs x = (if x \<in> set xs then xs else xs @ [x])"

text \<open>
  The function handed to \<open>transformFileImports\<close>. It gets the specifier and returns the
  text to put in its place; the set of proxy files is threaded through. The resolver
  returns a URL or \<open>false\<close>; \<open>false\<close> and the empty string are the falsy results.
\<close>

definition rewriteSpecifier ::
  "path_impl \<Rightarrow> build_deps \<Rightarrow> string \<Rightarrow> string \<Rightarrow> (string \<Rightarrow> string option)
     \<Rightarrow> string list \<Rightarrow> string \<Rightarrow> js_error + (string \<times> string list)" where
  "rewriteSpecifier P D buildDirectoryLoc outLoc resolveImportSpecifier allImportProxyFiles spec =
     (case resolveImportSpecifier spec of
        None \<Rightarrow> Inr (spec, allImportProxyFiles)
      | Some resolvedImportUrl \<Rightarrow>
          if resolvedImportUrl = [] then Inr (spec, allImportProxyFiles)
          else
            (case url_parse_protocol D resolvedImportUrl of
               Inl err \<Rightarrow> Inl err
             | Inr protocol \<Rightarrow>
                 if protocol \<noteq> None \<and> protocol \<noteq> Some [] then Inr (spec, allImportProxyFiles)
                 else
                   (let extName = path_extname P resolvedImportUrl;
                        isProxyImport = (extName \<noteq> [] \<and> extName \<noteq> ''.js'');
                        resolvedImportUrl1 =
                          (if isProxyImport then resolvedImportUrl @ ''.proxy.js''
                           else resolvedImportUrl);
                        isAbsoluteUrlPath = posix_isAbsolute resolvedImportUrl1;
                        resolvedImportPath =
                          config_removeLeadingSlash D (path_normalize P resolvedImportUrl1);
                        proxyFiles1 =
                          (if isProxyImport then
                             (if isAbsoluteUrlPath
                              then set_add allImportProxyFiles
                                     (path_resolve P [buildDirectoryLoc, resolvedImportPath])
                              else set_add allImportProxyFiles
                                     (path_resolve P [path_dirname P outLoc, resolvedImportPath]))
                           else allImportProxyFiles)
                    in if isAbsoluteUrlPath then
                         Inr (backslashes_to_slashes
                                (path_relative P (path_dirname P outLoc)
                                   (path_resolve P [buildDirectoryLoc, resolvedImportPath])),
                              proxyFiles1)
                       else if \<not> startsWith resolvedImportUrl1 ''.''
                               \<and> \<not> startsWith resolvedImportUrl1 ''/''
                         then Inr (''./'' @ resolvedImportUrl1, proxyFiles1)
                       else Inr (resolvedImportUrl1, proxyFiles1))))"

text \<open>
  The on-disk path of the proxy module for a resolved URL, as the rewriter computes it.
\<close>

definition proxy_file_loc :: "path_impl \<Rightarrow> build_deps \<Rightarrow> string \<Rightarrow> string \<Rightarrow> string \<Rightarrow> string" where
  "proxy_file_loc P D buildDirectoryLoc outLoc url =
     path_resolve P
       [if posix_isAbsolute (url @ ''.proxy.js'') then buildDirectoryLoc else path_dirname P outLoc,
        config_removeLeadingSlash D (path_normalize P (url @ ''.proxy.js''))]"

text \<open>
  \<^verbatim>\<open>url.parse(u).protocol\<close> of Node's legacy parser, for a well-formed URL without
  leading white space: the scheme matched by \<^verbatim>\<open>/^[a-z0-9.+-]+:/i\<close>, in lower case.
  The errors that \<open>url.parse\<close> throws on a malformed URL are not part of it.
\<close>

definition is_scheme_char :: "char \<Rightarrow> bool" where
  "is_scheme_char c =
     ((CHR ''a'' \<le> c \<and> c \<le> CHR ''z'') \<or> (CHR ''A'' \<le> c \<and> c \<le> CHR ''Z'')
      \<or> (CHR ''0'' \<le> c \<and> c \<le> CHR ''9'') \<or> c = CHR ''.'' \<or> c = CHR ''+'' \<or> c = CHR ''-'')"

definition lower_char :: "char \<Rightarrow> char" where
  "lower_char c = (if CHR ''A'' \<le> c \<and> c \<le> CHR ''Z'' then char_of (of_char c + (32::nat)) else c)"

definition legacy_url_protocol :: "string \<Rightarrow> js_error + string option" where
  "legacy_url_protocol u =
     (let scheme = takeWhile is_scheme_char u
      in if scheme \<noteq> [] \<and> startsWith (drop (length scheme) u) '':''
         then Inr (Some (map lower_char scheme @ '':''))
         else Inr None)"

definition node_deps :: build_deps where
  "node_deps = \<lparr>url_parse_protocol = legacy_url_protocol,
                config_removeLeadingSlash = removeLeadingSlash\<rparr>"

section \<open>packages/snowpack/src/commands/build.ts: the order of the phases\<close>

text \<open>
  A built file as the rewriting loop sees it: where it was read from, and the import
  specifiers of its contents in the order \<open>transformFileImports\<close> meets them.
\<close>

record source_file =
  locOnDisk :: string
  specifiers :: "string list"

record install_result =
  success :: bool
  hasError :: bool
  importMap :: js_object

text \<open>What the command does that another phase or the user can observe.\<close>

datatype event =
    BuildSource
  | InstallDependencies
  | RewriteImports string js_object
  | WriteRewritten string "string list"
  | WriteProxyFile string
  | OptimizeStep

datatype outcome = Completed | ProcessExit nat | Rejected js_error

text \<open>
  Modelled from the spec: \<open>transformFileImports\<close> of the \<open>rewrite-imports\<close> module, which is
  not among the sources. It works specifier by specifier over the imports of the file
  and puts the result of the function in place of each; an exception of the function
  ends it.
\<close>

fun transformFileImports ::
  "(string list \<Rightarrow> string \<Rightarrow> js_error + (string \<times> string list)) \<Rightarrow> string list \<Rightarrow> string list
     \<Rightarrow> js_error + (string list \<times> string list)" where
  "transformFileImports f [] proxyFiles = Inr ([], proxyFiles)"
| "transformFileImports f (spec # specs) proxyFiles =
     (case f proxyFiles spec of
        Inl err \<Rightarrow> Inl err
      | Inr (spec', proxyFiles') \<Rightarrow>
          (case transformFileImports f specs proxyFiles' of
             Inl err \<Rightarrow> Inl err
           | Inr (specs', proxyFiles'') \<Rightarrow> Inr (spec' # specs', proxyFiles'')))"

text \<open>
  The loop over \<open>allFilesToResolveImports\<close>: a resolver is made for each file from the
  import map of the install result, the file is rewritten and written out.
\<close>

fun rewrite_loop ::
  "path_impl \<Rightarrow> build_deps \<Rightarrow> (string \<Rightarrow> js_object \<Rightarrow> string \<Rightarrow> string option) \<Rightarrow> string
     \<Rightarrow> install_result \<Rightarrow> (string \<times> source_file) list \<Rightarrow> string list
     \<Rightarrow> event list \<times> (js_error + string list)" where
  "rewrite_loop P D createImportResolver buildDirectoryLoc installResult [] proxyFiles =
     ([], Inr proxyFiles)"
| "rewrite_loop P D createImportResolver buildDirectoryLoc installResult ((outLoc, file) # files) proxyFiles =
     (let resolveImportSpecifier = createImportResolver (locOnDisk file) (importMap installResult)
      in case transformFileImports
                (rewriteSpecifier P D buildDirectoryLoc outLoc resolveImportSpecifier)
                (specifiers file) proxyFiles of
           Inl err \<Rightarrow> ([RewriteImports outLoc (importMap installResult)], Inl err)
         | Inr (resolvedCode, proxyFiles') \<Rightarrow>
             (case rewrite_loop P D createImportResolver buildDirectoryLoc installResult files proxyFiles' of
                (evs, r) \<Rightarrow>
                  (RewriteImports outLoc (importMap installResult)
                     # WriteRewritten outLoc resolvedCode # evs, r)))"

text \<open>
  The command from the end of the source build on. The installer is awaited; it gives
  its result or throws. The phases before it are one event, as is the optimize step
  after the proxy loop.
\<close>

definition command ::
  "path_impl \<Rightarrow> build_deps \<Rightarrow> (string \<Rightarrow> js_object \<Rightarrow> string \<Rightarrow> string option) \<Rightarrow> string
     \<Rightarrow> (string \<times> source_file) list \<Rightarrow> js_error + install_result
     \<Rightarrow> event list \<times> outcome" where
  "command P D createImportResolver buildDirectoryLoc allFilesToResolveImports installOptimizedDependencies =
     (case installOptimizedDependencies of
        Inl err \<Rightarrow> ([BuildSource, InstallDependencies], Rejected err)
      | Inr installResult \<Rightarrow>
          if \<not> success installResult \<or> hasError installResult
          then ([BuildSource, InstallDependencies], ProcessExit 1)
          else
            (case rewrite_loop P D createImportResolver buildDirectoryLoc installResult
                    allFilesToResolveImports [] of
               (evs, Inl err) \<Rightarrow> ([BuildSource, InstallDependencies] @ evs, Rejected err)
             | (evs, Inr allImportProxyFiles) \<Rightarrow>
                 ([BuildSource, InstallDependencies] @ evs
                    @ map WriteProxyFile allImportProxyFiles @ [OptimizeStep],
                  Completed)))"

definition is_rewrite_event :: "event \<Rightarrow> bool" where
  "is_rewrite_event e =
     (case e of RewriteImports _ _ \<Rightarrow> True | WriteRewritten _ _ \<Rightarrow> True
      | WriteProxyFile _ \<Rightarrow> True | _ \<Rightarrow> False)"

section \<open>Example environments\<close>

text \<open>
  A package \<open>foo\<close> whose export map hides its manifest: resolving \<open>foo/package.json\<close>
  fails with the export-map error, the entrypoint resolves under \<open>node_modules/foo\<close>,
  and the manifest file cannot be read.
\<close>

definition env_unreadable :: "string node_env" where
  "env_unreadable =
     \<lparr>require_resolve = (\<lambda>request options.
          if request = ''foo'' then Inr ''/p/node_modules/foo/dist/index.js''
          else Inl (JsError (Some ''ERR_PACKAGE_PATH_NOT_EXPORTED''))),
      realpathSync_native = (\<lambda>p. Inr p),
      require_file = (\<lambda>p. Inl (JsError (Some ''MODULE_NOT_FOUND''))),
      readFileSync = (\<lambda>p. Inl (JsError (Some ''EACCES''))),
      JSON_parse = (\<lambda>s. Inr s),
      dirname_of_module = ''/opt/esinstall/lib''\<rparr>"

text \<open>A package that is not installed: every resolution fails with \<open>MODULE_NOT_FOUND\<close>.\<close>

definition env_not_installed :: "string node_env" where
  "env_not_installed =
     \<lparr>require_resolve = (\<lambda>request options. Inl (JsError (Some ''MODULE_NOT_FOUND''))),
      realpathSync_native = (\<lambda>p. Inr p),
      require_file = (\<lambda>p. Inl (JsError (Some ''MODULE_NOT_FOUND''))),
      readFileSync = (\<lambda>p. Inl (JsError (Some ''ENOENT''))),
      JSON_parse = (\<lambda>s. Inr s),
      dirname_of_module = ''/opt/esinstall/lib''\<rparr>"



section \<open>Properties of parsePackageImportSpecifier\<close>

lemma split_js_not_Nil: "split_js c s \<noteq> []"
  by (induction s) (auto split: list.splits)

lemma split_js_no_sep: "c \<notin> set s \<Longrightarrow> split_js c s = [s]"
  by (induction s) auto

lemma split_js_segment: "c \<notin> set s \<Longrightarrow> split_js c (s @ c # t) = s # split_js c t"
  by (induction s) auto

lemma split_js_join:
  "\<forall>s\<in>set (x # xs). c \<notin> set s \<Longrightarrow> split_js c (join_js [c] (x # xs)) = x # xs"
proof (induction xs arbitrary: x)
  case Nil
  then show ?case by (simp add: split_js_no_sep)
next
  case (Cons y ys)
  then show ?case by (simp add: split_js_segment)
qed

lemma join_js_split: "join_js [c] (split_js c s) = s"
proof (induction s)
  case Nil
  show ?case by simp
next
  case (Cons x xs)
  show ?case
  proof (cases "split_js c xs")
    case Nil
    then show ?thesis using split_js_not_Nil by blast
  next
    case (Cons y ys)
    with Cons.IH show ?thesis by (cases ys) auto
  qed
qed

lemma startsWith_join:
  "startsWith (join_js ''/'' (a # xs)) ''@'' = startsWith a ''@''"
  by (cases a; cases xs) (auto simp: startsWith_def)

text \<open>
  Claim C8. A specifier is given by its segments, none of which holds a slash. With
  two segments or more, a first segment that begins with \<open>@\<close> takes the second one
  into the package name, and any other first segment is the package name alone; the
  remaining segments, joined again, are the subpath, and an empty remainder is \<open>null\<close>.
  The two examples of the specification evaluate as it says.
\<close>

theorem parsePackageImportSpecifier_segments:
  "((\<forall>s\<in>set (a # b # rest). CHR ''/'' \<notin> set s) \<longrightarrow>
      parsePackageImportSpecifier (join_js ''/'' (a # b # rest)) =
        (if startsWith a ''@'' then (a @ ''/'' @ b, or_null (join_js ''/'' rest))
         else (a, or_null (join_js ''/'' (b # rest)))))
   \<and> (CHR ''/'' \<notin> set a \<and> \<not> startsWith a ''@'' \<longrightarrow> parsePackageImportSpecifier a = (a, None))
   \<and> parsePackageImportSpecifier ''@scope/pkg/deep/path'' = (''@scope/pkg'', Some ''deep/path'')
   \<and> parsePackageImportSpecifier ''lodash'' = (''lodash'', None)"
proof (intro conjI impI)
  assume seg: "\<forall>s\<in>set (a # b # rest). CHR ''/'' \<notin> set s"
  have sp: "split_js CHR ''/'' (join_js ''/'' (a # b # rest)) = a # b # rest"
    using split_js_join [OF seg] .
  show "parsePackageImportSpecifier (join_js ''/'' (a # b # rest)) =
        (if startsWith a ''@'' then (a @ ''/'' @ b, or_null (join_js ''/'' rest))
         else (a, or_null (join_js ''/'' (b # rest))))"
    unfolding parsePackageImportSpecifier_def sp startsWith_join
    by (simp add: element_def template_def)
next
  assume "CHR ''/'' \<notin> set a \<and> \<not> startsWith a ''@''"
  then show "parsePackageImportSpecifier a = (a, None)"
    by (simp add: parsePackageImportSpecifier_def split_js_no_sep element_def template_def or_null_def)
next
  show "parsePackageImportSpecifier ''@scope/pkg/deep/path'' = (''@scope/pkg'', Some ''deep/path'')"
    by (simp add: parsePackageImportSpecifier_def startsWith_def element_def template_def or_null_def)
next
  show "parsePackageImportSpecifier ''lodash'' = (''lodash'', None)"
    by (simp add: parsePackageImportSpecifier_def startsWith_def element_def template_def or_null_def)
qed

text \<open>The theorem at a scoped specifier, at an unscoped one, and at one ending in a slash.\<close>

theorem parsePackageImportSpecifier_segments_witness:
  "parsePackageImportSpecifier ''@babel/core/lib/index.js'' = (''@babel/core'', Some ''lib/index.js'')
   \<and> parsePackageImportSpecifier ''lodash/debounce'' = (''lodash'', Some ''debounce'')
   \<and> parsePackageImportSpecifier ''lodash/'' = (''lodash'', None)
   \<and> parsePackageImportSpecifier ''react'' = (''react'', None)"
  using parsePackageImportSpecifier_segments [of "''@babel''" "''core''" "[''lib'', ''index.js'']"]
    parsePackageImportSpecifier_segments [of "''lodash''" "''debounce''" "[]"]
    parsePackageImportSpecifier_segments [of "''lodash''" "[]" "[]"]
    parsePackageImportSpecifier_segments [of "''react''" "[]" "[]"]
  by (simp add: startsWith_def or_null_def)

text \<open>
  Claim C10. A specifier that begins with \<open>@\<close> and holds no slash has one segment; the
  name read from the array is \<open>undefined\<close>, and the template literal prints it: the
  package name is the specifier followed by \<open>/undefined\<close>, the subpath is \<open>null\<close>.
\<close>

theorem parsePackageImportSpecifier_scope_only:
  "startsWith imp ''@'' \<and> CHR ''/'' \<notin> set imp \<longrightarrow>
     parsePackageImportSpecifier imp = (imp @ ''/undefined'', None)"
  by (simp add: parsePackageImportSpecifier_def split_js_no_sep element_def template_def or_null_def)

text \<open>The theorem at the specifier \<open>@scope\<close>.\<close>

theorem parsePackageImportSpecifier_scope_only_witness:
  "parsePackageImportSpecifier ''@scope'' = (''@scope/undefined'', None)"
  using parsePackageImportSpecifier_scope_only [of "''@scope''"]
  by (simp add: startsWith_def)

section \<open>Properties of findMatchingAliasEntry\<close>












section \<open>Properties of resolveDependencyManifest\<close>

lemma attempt1_block_not_Normal: "attempt1_block env dep cwd \<noteq> Normal"
  by (simp add: attempt1_block_def split: sum.splits)

lemma attempt1_cases:
  "attempt1 env dep cwd =
     (case attempt1_block env dep cwd of
        Throw err \<Rightarrow> if code err = Some ''ERR_PACKAGE_PATH_NOT_EXPORTED'' then Normal
                      else Return (None, None)
      | c \<Rightarrow> c)"
  by (simp add: attempt1_def try_catch_def split: completion.splits)

lemma attempt2_returns: "\<exists>r. attempt2 P env dep cwd = Return r"
  by (simp add: attempt2_def finally_return_def split: prod.splits)

text \<open>
  Claim C1. For every package name and directory, and whatever Node answers, the
  resolver completes by returning a pair; it never throws. When \<open>dep/package.json\<close>
  resolves and loads, that path and manifest are returned. The first \<open>try\<close> statement
  completes normally, so that the second one runs, exactly when its block threw an
  error whose code is \<open>ERR_PACKAGE_PATH_NOT_EXPORTED\<close>; attempt 2 decides the result
  only then. Any other error of attempt 1 gives \<open>[null, null]\<close>.
\<close>

theorem resolveDependencyManifest_never_raises:
  "(\<exists>r. resolveDependencyManifest P env dep cwd = Return r)
   \<and> (\<forall>p m. resolvePath env (dep @ ''/package.json'') (Some cwd) = Inr p \<and> require_file env p = Inr m
         \<longrightarrow> resolveDependencyManifest P env dep cwd = Return (Some p, Some m))
   \<and> (attempt1 env dep cwd = Normal
        \<longleftrightarrow> (\<exists>err. attempt1_block env dep cwd = Throw err
                   \<and> code err = Some ''ERR_PACKAGE_PATH_NOT_EXPORTED''))
   \<and> resolveDependencyManifest P env dep cwd =
        (if attempt1 env dep cwd = Normal then attempt2 P env dep cwd else attempt1 env dep cwd)
   \<and> (\<forall>err. attempt1_block env dep cwd = Throw err
              \<and> code err \<noteq> Some ''ERR_PACKAGE_PATH_NOT_EXPORTED''
         \<longrightarrow> resolveDependencyManifest P env dep cwd = Return (None, None))"
proof (intro conjI allI impI)
  show "\<exists>r. resolveDependencyManifest P env dep cwd = Return r"
    using attempt2_returns [of P env dep cwd] attempt1_block_not_Normal [of env dep cwd]
    by (auto simp: resolveDependencyManifest_def then_run_def attempt1_cases
        split: completion.splits)
next
  fix p m
  assume "resolvePath env (dep @ ''/package.json'') (Some cwd) = Inr p \<and> require_file env p = Inr m"
  then have "attempt1_block env dep cwd = Return (Some p, Some m)"
    by (simp add: attempt1_block_def)
  then show "resolveDependencyManifest P env dep cwd = Return (Some p, Some m)"
    by (simp add: resolveDependencyManifest_def then_run_def attempt1_cases)
next
  show "attempt1 env dep cwd = Normal
        \<longleftrightarrow> (\<exists>err. attempt1_block env dep cwd = Throw err
                   \<and> code err = Some ''ERR_PACKAGE_PATH_NOT_EXPORTED'')"
    using attempt1_block_not_Normal [of env dep cwd]
    by (auto simp: attempt1_cases split: completion.splits if_splits)
next
  show "resolveDependencyManifest P env dep cwd =
        (if attempt1 env dep cwd = Normal then attempt2 P env dep cwd else attempt1 env dep cwd)"
    by (simp add: resolveDependencyManifest_def then_run_def split: completion.splits)
next
  fix err
  assume "attempt1_block env dep cwd = Throw err
              \<and> code err \<noteq> Some ''ERR_PACKAGE_PATH_NOT_EXPORTED''"
  then show "resolveDependencyManifest P env dep cwd = Return (None, None)"
    by (simp add: resolveDependencyManifest_def then_run_def attempt1_cases)
qed

text \<open>
  The theorem at a package that is not installed, where attempt 1 fails with
  \<open>MODULE_NOT_FOUND\<close>, and at a package whose export map hides the manifest.
\<close>

theorem resolveDependencyManifest_never_raises_witness:
  "resolveDependencyManifest (posix ''/'') env_not_installed ''foo'' ''/p'' = Return (None, None)
   \<and> attempt1 env_not_installed ''foo'' ''/p'' \<noteq> Normal
   \<and> attempt1 env_unreadable ''foo'' ''/p'' = Normal"
proof -
  have b1: "attempt1_block env_not_installed ''foo'' ''/p'' = Throw (JsError (Some ''MODULE_NOT_FOUND''))"
    by (simp add: attempt1_block_def resolvePath_def env_not_installed_def)
  have b2: "attempt1_block env_unreadable ''foo'' ''/p''
              = Throw (JsError (Some ''ERR_PACKAGE_PATH_NOT_EXPORTED''))"
    by (simp add: attempt1_block_def resolvePath_def env_unreadable_def)
  note t1 = resolveDependencyManifest_never_raises [of "posix ''/''" env_not_installed "''foo''" "''/p''"]
  note t2 = resolveDependencyManifest_never_raises [of "posix ''/''" env_unreadable "''foo''" "''/p''"]
  from t1 b1 have c1: "resolveDependencyManifest (posix ''/'') env_not_installed ''foo'' ''/p''
                         = Return (None, None)"
    by auto
  from t1 b1 have c2: "attempt1 env_not_installed ''foo'' ''/p'' \<noteq> Normal"
    by auto
  from t2 b2 have c3: "attempt1 env_unreadable ''foo'' ''/p'' = Normal"
    by auto
  from c1 c2 c3 show ?thesis by simp
qed

text \<open>
  Claim C2, as the code has it. In the fallback, once the entrypoint has resolved and
  the marker has been found in it, the inferred manifest path is stored in the result
  before the file is read; an error of the read or of the parse leaves it there. The
  result is the inferred path with a \<open>null\<close> manifest.
\<close>

theorem fallback_read_error:
  "attempt1 env dep cwd = Normal
   \<and> resolvePath env dep (Some cwd) = Inr fullPath
   \<and> 0 \<le> lastIndexOf fullPath (searchPath_of P dep)
   \<and> (readFileSync env (inferred_manifestPath P dep fullPath) = Inl e
       \<or> (readFileSync env (inferred_manifestPath P dep fullPath) = Inr manifestStr
           \<and> JSON_parse env manifestStr = Inl e))
   \<longrightarrow> resolveDependencyManifest P env dep cwd
         = Return (Some (inferred_manifestPath P dep fullPath), None)"
  by (auto simp: resolveDependencyManifest_def then_run_def attempt2_def attempt2_block_def
      finally_return_def searchPath_of_def inferred_manifestPath_def Let_def)

text \<open>
  The theorem at the package \<open>foo\<close> whose manifest file cannot be read.
\<close>

theorem fallback_read_error_witness:
  "resolveDependencyManifest (posix ''/'') env_unreadable ''foo'' ''/p''
     = Return (Some ''/p/node_modules/foo/package.json'', None)"
proof -
  have a: "attempt1 env_unreadable ''foo'' ''/p'' = Normal"
    by (simp add: attempt1_def attempt1_block_def try_catch_def resolvePath_def env_unreadable_def)
  have b: "resolvePath env_unreadable ''foo'' (Some ''/p'') = Inr ''/p/node_modules/foo/dist/index.js''"
    by (simp add: resolvePath_def env_unreadable_def)
  have s: "searchPath_of (posix ''/'') ''foo'' = ''/node_modules/foo''"
    by (simp add: searchPath_of_def posix_def)
  have c: "lastIndexOf ''/p/node_modules/foo/dist/index.js'' ''/node_modules/foo'' = 2"
    by code_simp
  have d: "inferred_manifestPath (posix ''/'') ''foo'' ''/p/node_modules/foo/dist/index.js''
             = ''/p/node_modules/foo/package.json''"
    by (simp add: inferred_manifestPath_def s c substring0_def)
  have e: "readFileSync env_unreadable ''/p/node_modules/foo/package.json''
             = Inl (JsError (Some ''EACCES''))"
    by (simp add: env_unreadable_def)
  show ?thesis
    using fallback_read_error [of env_unreadable "''foo''" "''/p''"
        "''/p/node_modules/foo/dist/index.js''" "posix ''/''" "JsError (Some ''EACCES'')"]
    by (simp add: a b s c d e)
qed

text \<open>
  Claim C2 as stated fails: for the package \<open>foo\<close>, whose export map hides the manifest and
  whose manifest file cannot be read, the result is not \<open>[null, null]\<close>.
\<close>

theorem fallback_read_error_counterexample:
  "attempt1 env_unreadable ''foo'' ''/p'' = Normal
   \<and> readFileSync env_unreadable ''/p/node_modules/foo/package.json'' = Inl (JsError (Some ''EACCES''))
   \<and> resolveDependencyManifest (posix ''/'') env_unreadable ''foo'' ''/p'' \<noteq> Return (None, None)"
proof -
  have c: "lastIndexOf ''/p/node_modules/foo/dist/index.js'' ''/node_modules/foo'' = 2"
    by code_simp
  show ?thesis
    by (simp add: resolveDependencyManifest_def then_run_def attempt1_def attempt1_block_def
        try_catch_def resolvePath_def env_unreadable_def attempt2_def attempt2_block_def
        finally_return_def posix_def c substring0_def Let_def)
qed


section \<open>Properties of writeLockfile\<close>

lemma set_own_keys: "set (own_keys obj) = fst ` set obj"
  by (auto simp: own_keys_def)

lemma distinct_own_keys: "distinct (map fst obj) \<Longrightarrow> distinct (own_keys obj)"
  by (auto simp: own_keys_def distinct_map_filter)

lemma sort_own_keys_eq:
  assumes "distinct (map fst a)" and "distinct (map fst b)" and "set a = set b"
  shows "sort (own_keys a) = sort (own_keys b)"
proof (rule sorted_distinct_set_unique)
  show "sorted (sort (own_keys a))" and "sorted (sort (own_keys b))" by simp_all
  show "distinct (sort (own_keys a))" using assms(1) by (simp add: distinct_own_keys)
  show "distinct (sort (own_keys b))" using assms(2) by (simp add: distinct_own_keys)
  show "set (sort (own_keys a)) = set (sort (own_keys b))"
    using assms(3) by (simp add: set_own_keys)
qed

lemma copy_sorted_map_of:
  "map_of a = map_of b \<Longrightarrow> copy_sorted a ks acc = copy_sorted b ks acc"
  by (induction ks arbitrary: acc) auto

lemma sortedImportMap_order_independent:
  assumes "distinct (map fst a)" and "distinct (map fst b)" and "set a = set b"
  shows "sortedImportMap a = sortedImportMap b"
proof -
  have "map_of a = map_of b"
    using assms by (simp add: map_of_inject_set)
  then show ?thesis
    unfolding sortedImportMap_def sort_own_keys_eq [OF assms]
    by (rule copy_sorted_map_of)
qed

text \<open>
  The written bytes depend on the set of key and value pairs only: two objects with the
  same properties, created in any order, give the same file.
\<close>

lemma writeLockfile_order_independent:
  "distinct (map fst a) \<and> distinct (map fst b) \<and> set a = set b
     \<longrightarrow> writeLockfile loc a fs = writeLockfile loc b fs"
  by (auto simp: writeLockfile_def dest: sortedImportMap_order_independent)

lemma writeLockfile_order_independent_example:
  "writeLockfile ''snowpack.lock.json'' [(''b'', ''./b.js''), (''a'', ''./a.js'')] Map.empty
     = writeLockfile ''snowpack.lock.json'' [(''a'', ''./a.js''), (''b'', ''./b.js'')] Map.empty"
  using writeLockfile_order_independent
    [of "[(''b'', ''./b.js''), (''a'', ''./a.js'')]" "[(''a'', ''./a.js''), (''b'', ''./b.js'')]"]
  by auto

lemma copy_sorted_append:
  "distinct ks \<Longrightarrow> set ks \<subseteq> dom (map_of imports) \<Longrightarrow> ''__proto__'' \<notin> set ks
     \<Longrightarrow> set ks \<inter> fst ` set acc = {}
     \<Longrightarrow> copy_sorted imports ks acc = acc @ map (\<lambda>k. (k, the (map_of imports k))) ks"
proof (induction ks arbitrary: acc)
  case Nil
  then show ?case by simp
next
  case (Cons k ks)
  from Cons.prems obtain v where v: "map_of imports k = Some v" by auto
  have step: "obj_set acc k v = acc @ [(k, v)]"
    using Cons.prems by (auto simp: obj_set_def)
  have "copy_sorted imports ks (acc @ [(k, v)])
          = (acc @ [(k, v)]) @ map (\<lambda>k. (k, the (map_of imports k))) ks"
    using Cons.prems by (intro Cons.IH) auto
  then show ?case by (simp add: v step)
qed

lemma own_keys_no_index:
  "\<forall>k\<in>fst ` set obj. \<not> is_array_index k \<Longrightarrow> own_keys obj = map fst obj"
  by (induction obj) (auto simp: own_keys_def)

text \<open>
  When no key is an array index or \<open>__proto__\<close>, the keys are written in sorted order
  and every property is written.
\<close>

lemma writeLockfile_sorted_without_index_keys:
  assumes "distinct (map fst imports)"
    and "\<forall>k\<in>fst ` set imports. \<not> is_array_index k \<and> k \<noteq> ''__proto__''"
  shows "own_keys (sortedImportMap imports) = sort (map fst imports)"
    and "map_of (sortedImportMap imports) = map_of imports"
proof -
  have ok: "own_keys imports = map fst imports"
    using assms(2) by (intro own_keys_no_index) auto
  have "copy_sorted imports (sort (map fst imports)) []
          = [] @ map (\<lambda>k. (k, the (map_of imports k))) (sort (map fst imports))"
    using assms by (intro copy_sorted_append) (auto simp: dom_map_of_conv_image_fst)
  then have eq: "sortedImportMap imports
                   = map (\<lambda>k. (k, the (map_of imports k))) (sort (map fst imports))"
    by (simp add: sortedImportMap_def ok)
  have "map fst (sortedImportMap imports) = sort (map fst imports)"
    by (simp add: eq comp_def)
  moreover have "\<forall>k\<in>fst ` set (sortedImportMap imports). \<not> is_array_index k"
    using assms(2) by (auto simp: eq)
  ultimately show "own_keys (sortedImportMap imports) = sort (map fst imports)"
    by (simp add: own_keys_no_index)
  show "map_of (sortedImportMap imports) = map_of imports"
  proof
    fix k
    show "map_of (sortedImportMap imports) k = map_of imports k"
    proof (cases "k \<in> fst ` set imports")
      case True
      then obtain v where "map_of imports k = Some v"
        by (metis domD dom_map_of_conv_image_fst)
      with True show ?thesis
        by (simp add: eq map_of_map_restrict restrict_map_def)
    next
      case False
      then have "map_of imports k = None"
        by (simp add: map_of_eq_None_iff)
      with False show ?thesis
        by (simp add: eq map_of_map_restrict restrict_map_def)
    qed
  qed
qed

text \<open>
  Claim C3 at an import map with the keys \<open>10\<close> and \<open>9\<close>. The keys are sorted as strings,
  \<open>10\<close> before \<open>9\<close>, and copied in that order; both are array indices, so the copy
  enumerates them by number, and the file holds \<open>9\<close> before \<open>10\<close>: its keys are not in
  lexicographic order.
\<close>

theorem writeLockfile_index_keys_unsorted:
  "sort (own_keys [(''10'', ''./ten.js''), (''9'', ''./nine.js'')]) = [''10'', ''9'']
   \<and> own_keys (sortedImportMap [(''10'', ''./ten.js''), (''9'', ''./nine.js'')]) = [''9'', ''10'']
   \<and> \<not> sorted (own_keys (sortedImportMap [(''10'', ''./ten.js''), (''9'', ''./nine.js'')]))
   \<and> writeLockfile ''snowpack.lock.json'' [(''10'', ''./ten.js''), (''9'', ''./nine.js'')] Map.empty
        ''snowpack.lock.json''
      = Some (''{'' @ [CHR 0x0A]
              @ ''  '' @ [CHR 0x22] @ ''imports'' @ [CHR 0x22] @ '': {'' @ [CHR 0x0A]
              @ ''    '' @ [CHR 0x22] @ ''9'' @ [CHR 0x22] @ '': '' @ [CHR 0x22] @ ''./nine.js'' @ [CHR 0x22] @ '','' @ [CHR 0x0A]
              @ ''    '' @ [CHR 0x22] @ ''10'' @ [CHR 0x22] @ '': '' @ [CHR 0x22] @ ''./ten.js'' @ [CHR 0x22] @ [CHR 0x0A]
              @ ''  }'' @ [CHR 0x0A]
              @ ''}'')"
proof (intro conjI)
  show a: "sort (own_keys [(''10'', ''./ten.js''), (''9'', ''./nine.js'')]) = [''10'', ''9'']"
    by code_simp
  show b: "own_keys (sortedImportMap [(''10'', ''./ten.js''), (''9'', ''./nine.js'')]) = [''9'', ''10'']"
    by code_simp
  show "\<not> sorted (own_keys (sortedImportMap [(''10'', ''./ten.js''), (''9'', ''./nine.js'')]))"
    unfolding b by code_simp
  show "writeLockfile ''snowpack.lock.json'' [(''10'', ''./ten.js''), (''9'', ''./nine.js'')] Map.empty
        ''snowpack.lock.json''
      = Some (''{'' @ [CHR 0x0A]
              @ ''  '' @ [CHR 0x22] @ ''imports'' @ [CHR 0x22] @ '': {'' @ [CHR 0x0A]
              @ ''    '' @ [CHR 0x22] @ ''9'' @ [CHR 0x22] @ '': '' @ [CHR 0x22] @ ''./nine.js'' @ [CHR 0x22] @ '','' @ [CHR 0x0A]
              @ ''    '' @ [CHR 0x22] @ ''10'' @ [CHR 0x22] @ '': '' @ [CHR 0x22] @ ''./ten.js'' @ [CHR 0x22] @ [CHR 0x0A]
              @ ''  }'' @ [CHR 0x0A]
              @ ''}'')"
    unfolding writeLockfile_def fun_upd_same option.inject
    by code_simp
qed


section \<open>Properties of the build command\<close>

lemma set_add_member: "x \<in> set (set_add xs x)"
  by (simp add: set_add_def)

lemma set_add_keeps: "set xs \<subseteq> set (set_add xs x)"
  by (auto simp: set_add_def)

lemma posix_isAbsolute_append: "u \<noteq> [] \<Longrightarrow> posix_isAbsolute (u @ v) = posix_isAbsolute u"
  by (simp add: posix_isAbsolute_def)

lemma startsWith_append1: "u \<noteq> [] \<Longrightarrow> startsWith (u @ v) [c] = startsWith u [c]"
  by (cases u) (simp_all add: startsWith_def)

lemma posix_isAbsolute_startsWith: "posix_isAbsolute u = startsWith u ''/''"
  by (cases u) (simp_all add: posix_isAbsolute_def startsWith_def)




text \<open>
  Claim C5. Let the resolver return a URL without protocol whose extension is neither
  empty nor \<open>.js\<close>. Then \<open>.proxy.js\<close> is appended to the URL; the path of the proxy file
  on disk, resolved from the build directory for an absolute URL and from the directory
  of the importing output file otherwise, is added to the set of proxy files; and the
  specifier written is the suffixed URL, prefixed with \<open>./\<close> unless it begins with a dot,
  or for an absolute URL the relative path from the importing file to that proxy file.
\<close>

theorem rewriteSpecifier_proxy:
  "resolveImportSpecifier spec = Some u \<and> u \<noteq> []
   \<and> (url_parse_protocol D u = Inr None \<or> url_parse_protocol D u = Inr (Some []))
   \<and> path_extname P u \<noteq> [] \<and> path_extname P u \<noteq> ''.js''
   \<longrightarrow> rewriteSpecifier P D buildDirectoryLoc outLoc resolveImportSpecifier proxyFiles spec
         = Inr (if posix_isAbsolute u
                  then backslashes_to_slashes
                         (path_relative P (path_dirname P outLoc)
                            (proxy_file_loc P D buildDirectoryLoc outLoc u))
                else if startsWith u ''.'' then u @ ''.proxy.js''
                else ''./'' @ u @ ''.proxy.js'',
                set_add proxyFiles (proxy_file_loc P D buildDirectoryLoc outLoc u))
       \<and> proxy_file_loc P D buildDirectoryLoc outLoc u
            \<in> set (set_add proxyFiles (proxy_file_loc P D buildDirectoryLoc outLoc u))"
  by (auto simp: rewriteSpecifier_def Let_def proxy_file_loc_def posix_isAbsolute_append
      startsWith_append1 set_add_member posix_isAbsolute_startsWith)

text \<open>
  The theorem at a stylesheet imported from the directory of the importing file.
\<close>

theorem rewriteSpecifier_proxy_witness:
  "rewriteSpecifier (posix ''/home/u'') node_deps ''/out'' ''/out/_dist_/index.js''
     (\<lambda>s. if s = ''./App.css'' then Some ''./App.css'' else None) [] ''./App.css''
     = Inr (''./App.css.proxy.js'', [''/out/_dist_/App.css.proxy.js''])"
proof -
  let ?P = "posix ''/home/u''"
  let ?r = "\<lambda>s. if s = ''./App.css'' then Some ''./App.css'' else None"
  have p: "url_parse_protocol node_deps ''./App.css'' = Inr None"
    unfolding node_deps_def build_deps.simps by code_simp
  have e: "path_extname ?P ''./App.css'' = ''.css''"
    unfolding posix_def path_impl.simps by code_simp
  have a: "\<not> posix_isAbsolute ''./App.css''"
    by code_simp
  have l: "proxy_file_loc ?P node_deps ''/out'' ''/out/_dist_/index.js'' ''./App.css''
             = ''/out/_dist_/App.css.proxy.js''"
    unfolding proxy_file_loc_def posix_def node_deps_def path_impl.simps build_deps.simps
    by code_simp
  show ?thesis
    using rewriteSpecifier_proxy
        [of ?r "''./App.css''" "''./App.css''" node_deps ?P "''/out''" "''/out/_dist_/index.js''" "[]"]
    by (simp add: p e a l startsWith_def set_add_def)
qed

lemma startsWith_dot_slash: "startsWith (CHR ''.'' # x) ''.''"
  by (simp add: startsWith_def)

text \<open>
  A URL that is not absolute is written with a leading dot.
\<close>

lemma rewriteSpecifier_relative_prefixed:
  assumes "resolveImportSpecifier spec = Some u" and "u \<noteq> []" and "\<not> posix_isAbsolute u"
    and "url_parse_protocol D u = Inr None \<or> url_parse_protocol D u = Inr (Some [])"
    and "rewriteSpecifier P D buildDirectoryLoc outLoc resolveImportSpecifier proxyFiles spec
           = Inr (emitted, proxyFiles')"
  shows "startsWith emitted ''.''"
proof -
  define u1 where "u1 = (if path_extname P u \<noteq> [] \<and> path_extname P u \<noteq> ''.js''
                         then u @ ''.proxy.js'' else u)"
  have na: "\<not> posix_isAbsolute u1"
    using assms(2,3) by (simp add: u1_def posix_isAbsolute_append)
  have "emitted = (if \<not> startsWith u1 ''.'' \<and> \<not> startsWith u1 ''/'' then ''./'' @ u1 else u1)"
    using assms(1,2,4,5) na
    by (auto simp: rewriteSpecifier_def Let_def u1_def split: if_splits)
  with na show ?thesis
    by (auto simp: posix_isAbsolute_startsWith startsWith_dot_slash)
qed

text \<open>
  Claim C6 at the import of \<open>react\<close> from \<open>index.js\<close> at the root of the build directory
  \<open>/out\<close>, resolved to \<open>/web_modules/react.js\<close>. The branch for absolute URLs returns
  what \<open>path.relative\<close> gives, before the test that would prefix \<open>./\<close>: the specifier
  written is \<open>web_modules/react.js\<close>, which begins with neither a dot nor a slash.
\<close>

theorem rewriteSpecifier_absolute_bare:
  "rewriteSpecifier (posix ''/home/u'') node_deps ''/out'' ''/out/index.js''
     (\<lambda>s. if s = ''react'' then Some ''/web_modules/react.js'' else None) [] ''react''
     = Inr (''web_modules/react.js'', [])
   \<and> \<not> startsWith ''web_modules/react.js'' ''.''
   \<and> \<not> startsWith ''web_modules/react.js'' ''/''"
proof (intro conjI)
  let ?P = "posix ''/home/u''"
  have p: "url_parse_protocol node_deps ''/web_modules/react.js'' = Inr None"
    unfolding node_deps_def build_deps.simps by code_simp
  have e: "path_extname ?P ''/web_modules/react.js'' = ''.js''"
    unfolding posix_def path_impl.simps by code_simp
  have a: "posix_isAbsolute ''/web_modules/react.js''"
    by code_simp
  have n: "config_removeLeadingSlash node_deps (path_normalize ?P ''/web_modules/react.js'')
             = ''web_modules/react.js''"
    unfolding posix_def node_deps_def path_impl.simps build_deps.simps by code_simp
  have r: "path_resolve ?P [''/out'', ''web_modules/react.js''] = ''/out/web_modules/react.js''"
    unfolding posix_def path_impl.simps by code_simp
  have d: "path_dirname ?P ''/out/index.js'' = ''/out''"
    unfolding posix_def path_impl.simps by code_simp
  have l: "path_relative ?P ''/out'' ''/out/web_modules/react.js'' = ''web_modules/react.js''"
    unfolding posix_def path_impl.simps by code_simp
  show "rewriteSpecifier ?P node_deps ''/out'' ''/out/index.js''
     (\<lambda>s. if s = ''react'' then Some ''/web_modules/react.js'' else None) [] ''react''
     = Inr (''web_modules/react.js'', [])"
    by (simp add: rewriteSpecifier_def Let_def p e a n r d l backslashes_to_slashes_def)
  show "\<not> startsWith ''web_modules/react.js'' ''.''"
    by (simp add: startsWith_def)
  show "\<not> startsWith ''web_modules/react.js'' ''/''"
    by (simp add: startsWith_def)
qed

lemma rewrite_loop_events:
  "e \<in> set (fst (rewrite_loop P D cir b r files proxyFiles))
     \<Longrightarrow> (\<exists>outLoc. e = RewriteImports outLoc (importMap r)) \<or> (\<exists>outLoc code. e = WriteRewritten outLoc code)"
proof (induction files arbitrary: proxyFiles)
  case Nil
  then show ?case by simp
next
  case (Cons f files)
  obtain outLoc sf where f: "f = (outLoc, sf)" by (cases f)
  show ?case
  proof (cases "transformFileImports
                  (rewriteSpecifier P D b outLoc (cir (locOnDisk sf) (importMap r)))
                  (specifiers sf) proxyFiles")
    case (Inl err)
    with Cons.prems f show ?thesis by (simp add: Let_def)
  next
    case (Inr res)
    obtain code proxyFiles' where res: "res = (code, proxyFiles')" by (cases res)
    from Cons.prems f Inr res
    have "e = RewriteImports outLoc (importMap r) \<or> e = WriteRewritten outLoc code
            \<or> e \<in> set (fst (rewrite_loop P D cir b r files proxyFiles'))"
      by (auto simp: Let_def split: prod.splits)
    with Cons.IH show ?thesis by blast
  qed
qed

text \<open>
  Claim C9. Every run of the command begins with the source build and the installer;
  whatever is rewritten or written for a proxy comes after them. When the installer
  reports failure the process exits with code 1 right after it, and when it throws the
  command is rejected; in both cases nothing is rewritten. Every rewriting event stems
  from an install result that reports success and no error, and uses its import map.
\<close>

theorem command_install_barrier:
  "(\<exists>evs. fst (command P D cir b files install) = [BuildSource, InstallDependencies] @ evs)
   \<and> (\<forall>r. install = Inr r \<and> (\<not> success r \<or> hasError r)
         \<longrightarrow> command P D cir b files install = ([BuildSource, InstallDependencies], ProcessExit 1))
   \<and> (\<forall>err. install = Inl err
         \<longrightarrow> command P D cir b files install = ([BuildSource, InstallDependencies], Rejected err))
   \<and> (\<forall>e\<in>set (fst (command P D cir b files install)). is_rewrite_event e
         \<longrightarrow> (\<exists>r. install = Inr r \<and> success r \<and> \<not> hasError r
                 \<and> (\<forall>outLoc m. e = RewriteImports outLoc m \<longrightarrow> m = importMap r)))"
proof (intro conjI allI impI ballI)
  show "\<exists>evs. fst (command P D cir b files install) = [BuildSource, InstallDependencies] @ evs"
    by (auto simp: command_def split: sum.splits prod.splits)
next
  fix r
  assume "install = Inr r \<and> (\<not> success r \<or> hasError r)"
  then show "command P D cir b files install = ([BuildSource, InstallDependencies], ProcessExit 1)"
    by (auto simp: command_def)
next
  fix err
  assume "install = Inl err"
  then show "command P D cir b files install = ([BuildSource, InstallDependencies], Rejected err)"
    by (simp add: command_def)
next
  fix e
  assume e: "e \<in> set (fst (command P D cir b files install))" and rw: "is_rewrite_event e"
  show "\<exists>r. install = Inr r \<and> success r \<and> \<not> hasError r
            \<and> (\<forall>outLoc m. e = RewriteImports outLoc m \<longrightarrow> m = importMap r)"
  proof (cases install)
    case (Inl err)
    with e rw show ?thesis by (auto simp: command_def is_rewrite_event_def)
  next
    case (Inr r)
    show ?thesis
    proof (cases "\<not> success r \<or> hasError r")
      case True
      with Inr e rw show ?thesis by (auto simp: command_def is_rewrite_event_def)
    next
      case False
      obtain evs res where loop: "rewrite_loop P D cir b r files [] = (evs, res)"
        by (cases "rewrite_loop P D cir b r files []")
      have "\<forall>outLoc m. e = RewriteImports outLoc m \<longrightarrow> m = importMap r"
      proof (intro allI impI)
        fix outLoc m
        assume em: "e = RewriteImports outLoc m"
        with e Inr False loop have "e \<in> set evs"
          by (auto simp: command_def split: sum.splits)
        then have "e \<in> set (fst (rewrite_loop P D cir b r files []))"
          by (simp add: loop)
        from rewrite_loop_events [OF this] em show "m = importMap r" by auto
      qed
      with Inr False show ?thesis by simp
    qed
  qed
qed

text \<open>
  The theorem at a build of one file, with an installer that fails and with one that
  succeeds.
\<close>

theorem command_install_barrier_witness:
  "command (posix ''/home/u'') node_deps (\<lambda>fileLoc m spec. map_of m spec) ''/out''
     [(''/out/index.js'', \<lparr>locOnDisk = ''/home/u/src/index.js'', specifiers = [''./a.js'']\<rparr>)]
     (Inr \<lparr>success = False, hasError = True, importMap = []\<rparr>)
     = ([BuildSource, InstallDependencies], ProcessExit 1)
   \<and> command (posix ''/home/u'') node_deps (\<lambda>fileLoc m spec. map_of m spec) ''/out''
     [(''/out/index.js'', \<lparr>locOnDisk = ''/home/u/src/index.js'', specifiers = [''./a.js'']\<rparr>)]
     (Inr \<lparr>success = True, hasError = False, importMap = [(''./a.js'', ''./a.js'')]\<rparr>)
     = ([BuildSource, InstallDependencies,
         RewriteImports ''/out/index.js'' [(''./a.js'', ''./a.js'')],
         WriteRewritten ''/out/index.js'' [''./a.js''], OptimizeStep], Completed)"
proof -
  let ?P = "posix ''/home/u''"
  let ?cir = "\<lambda>fileLoc m spec. map_of m spec :: string option"
  let ?files = "[(''/out/index.js'', \<lparr>locOnDisk = ''/home/u/src/index.js'', specifiers = [''./a.js'']\<rparr>)]"
  have p: "url_parse_protocol node_deps ''./a.js'' = Inr None"
    unfolding node_deps_def build_deps.simps by code_simp
  have e: "path_extname ?P ''./a.js'' = ''.js''"
    unfolding posix_def path_impl.simps by code_simp
  have a: "\<not> posix_isAbsolute ''./a.js''"
    by code_simp
  have ok: "command ?P node_deps ?cir ''/out'' ?files
              (Inr \<lparr>success = True, hasError = False, importMap = [(''./a.js'', ''./a.js'')]\<rparr>)
            = ([BuildSource, InstallDependencies,
                RewriteImports ''/out/index.js'' [(''./a.js'', ''./a.js'')],
                WriteRewritten ''/out/index.js'' [''./a.js''], OptimizeStep], Completed)"
    by (simp add: command_def rewriteSpecifier_def Let_def p e a startsWith_def)
  show ?thesis
    using command_install_barrier
      [of ?P node_deps ?cir "''/out''" ?files
          "Inr \<lparr>success = False, hasError = True, importMap = []\<rparr>"]
      command_install_barrier
      [of ?P node_deps ?cir "''/out''" ?files
          "Inr \<lparr>success = True, hasError = False, importMap = [(''./a.js'', ''./a.js'')]\<rparr>"]
    by (simp add: ok)
qed

end
